theory Spec2Isabelle
  imports
    Main
    "HOL-Library.Word"
    "HOL-Library.Log_Nat"
    "HOL-Library.Signed_Division"
    "HOL-Library.Sublist"
begin

unbundle bit_operations_syntax

section \<open>Data model\<close>

text \<open>
  \<^verbatim>\<open>uint256\<close> is an opaque blob of 32 bytes (its \<^verbatim>\<open>begin()\<close>/\<^verbatim>\<open>end()\<close> iterate over
  bytes); \<^verbatim>\<open>arith_uint256\<close> is an unsigned 256-bit integer whose arithmetic wraps.
  Fixed-width C++ integers (\<^verbatim>\<open>uint32_t\<close>, \<^verbatim>\<open>int32_t\<close>) are words; \<^verbatim>\<open>int\<close> heights and
  \<^verbatim>\<open>int64_t\<close> times and spacings are mathematical integers (signed overflow is undefined
  behaviour in C++ and is outside the model).
\<close>

type_synonym byte = "8 word"
type_synonym uint256 = "byte list"
type_synonym arith_uint256 = "256 word"

definition uint256_null :: uint256 where
  "uint256_null = replicate 32 0"


text \<open>
  Modelled from the spec: \<^verbatim>\<open>UintToArith256\<close> (arith_uint256.cpp is not part of the sources
  at hand). The hash is read as an unsigned 256-bit big integer; byte 0 of the blob is the
  least significant byte.
\<close>

fun le_bytes_nat :: "byte list \<Rightarrow> nat" where
  "le_bytes_nat [] = 0"
| "le_bytes_nat (b # bs) = unat b + 256 * le_bytes_nat bs"

definition UintToArith256 :: "uint256 \<Rightarrow> arith_uint256" where
  "UintToArith256 h = of_nat (le_bytes_nat h)"

record Params =
  hashGenesisBlock :: uint256
  powLimit :: uint256
  fPowAllowMinDifficultyBlocks :: bool
  fPowNoRetargeting :: bool
  nPowTargetSpacing :: int
  nPowTargetSpacingV2 :: int
  nPowTargetTimespan :: int
  nAuxpowStartHeight :: int

record CBlockHeader =
  nVersion :: "32 word"
  hashPrevBlock :: uint256
  hashMerkleRoot :: uint256
  nTime :: "32 word"
  nBits :: "32 word"
  nNonce :: "32 word"

definition AUXPOW_VERSION_BIT :: "32 word" where
  "AUXPOW_VERSION_BIT = push_bit 8 1"

definition IsAuxpow :: "'a CBlockHeader_scheme \<Rightarrow> bool" where
  "IsAuxpow h = (nVersion h AND AUXPOW_VERSION_BIT \<noteq> 0)"

section \<open>Compact target codec\<close>

text \<open>
  Modelled from the spec: \<^verbatim>\<open>arith_uint256::bits\<close>, \<^verbatim>\<open>SetCompact\<close> and \<^verbatim>\<open>GetCompact\<close>
  (arith_uint256.h/.cpp are not part of the sources at hand). A compact value is
  (exponent, 23-bit mantissa, sign flag): the top byte is the size in bytes, bit 23 the
  sign, the low 23 bits the mantissa. Decoding yields the value together with the
  negative and overflow flags; encoding moves a mantissa whose high bit is set one byte
  down and increments the exponent, so that the sign bit is never set.
\<close>

definition bits :: "arith_uint256 \<Rightarrow> nat" where
  "bits x = floorlog 2 (unat x)"

definition SetCompact :: "32 word \<Rightarrow> arith_uint256 \<times> bool \<times> bool" where
  "SetCompact nCompact =
     (let nSize = unat (drop_bit 24 nCompact);
          nWord0 = nCompact AND 0x007fffff;
          nWord = (if nSize \<le> 3 then drop_bit (8 * (3 - nSize)) nWord0 else nWord0);
          val = (if nSize \<le> 3 then ucast nWord
                 else push_bit (8 * (nSize - 3)) (ucast nWord :: arith_uint256));
          fNegative = (nWord \<noteq> 0 \<and> nCompact AND 0x00800000 \<noteq> 0);
          fOverflow = (nWord \<noteq> 0 \<and> (nSize > 34 \<or> (nWord > 0xff \<and> nSize > 33)
                                        \<or> (nWord > 0xffff \<and> nSize > 32)))
      in (val, fNegative, fOverflow))"

definition target_of :: "32 word \<Rightarrow> arith_uint256" where
  "target_of nCompact = fst (SetCompact nCompact)"

definition GetCompact :: "arith_uint256 \<Rightarrow> 32 word" where
  "GetCompact x =
     (let nSize = (bits x + 7) div 8;
          nCompact = (if nSize \<le> 3
                      then ucast (push_bit (8 * (3 - nSize)) (ucast x :: 64 word))
                      else ucast (ucast (drop_bit (8 * (nSize - 3)) x) :: 64 word)) :: 32 word;
          hi = (nCompact AND 0x00800000 \<noteq> 0);
          nCompact' = (if hi then drop_bit 8 nCompact else nCompact);
          nSize' = (if hi then nSize + 1 else nSize)
      in nCompact' OR push_bit 24 (of_nat nSize'))"

section \<open>Proof-of-work check (pow.cpp)\<close>

definition CheckProofOfWork :: "uint256 \<Rightarrow> 32 word \<Rightarrow> 'a Params_scheme \<Rightarrow> bool" where
  "CheckProofOfWork hash nBits' params =
     (case SetCompact nBits' of (bnTarget, fNegative, fOverflow) \<Rightarrow>
        if fNegative \<or> bnTarget = 0 \<or> fOverflow \<or> bnTarget > UintToArith256 (powLimit params)
        then False
        else if UintToArith256 hash > bnTarget then False
        else True)"

section \<open>Merkle branch (primitives/block.cpp)\<close>

text \<open>
  \<^verbatim>\<open>Hash(BEGIN(a), END(a), BEGIN(b), END(b))\<close> is the double SHA-256 of the two byte
  ranges concatenated. The hash function itself is a parameter \<open>H\<close> of the model. The
  index is a C++ \<^verbatim>\<open>int\<close>: \<^verbatim>\<open>nIndex & 1\<close> tests its lowest bit and \<^verbatim>\<open>nIndex >>= 1\<close>
  shifts it right by one.
\<close>

fun ComputeMerkleRootFromBranch ::
  "(byte list \<Rightarrow> uint256) \<Rightarrow> uint256 \<Rightarrow> uint256 list \<Rightarrow> int \<Rightarrow> uint256" where
  "ComputeMerkleRootFromBranch H currentHash [] nIndex = currentHash"
| "ComputeMerkleRootFromBranch H currentHash (step # vMerkleBranch) nIndex =
     ComputeMerkleRootFromBranch H
       (if nIndex AND 1 \<noteq> 0 then H (step @ currentHash) else H (currentHash @ step))
       vMerkleBranch (drop_bit 1 nIndex)"

definition CheckMerkleBranch ::
  "(byte list \<Rightarrow> uint256) \<Rightarrow> uint256 \<Rightarrow> uint256 list \<Rightarrow> int \<Rightarrow> uint256" where
  "CheckMerkleBranch H hash vMerkleBranch nIndex =
     ComputeMerkleRootFromBranch H hash vMerkleBranch nIndex"

section \<open>Header hash, transactions, AuxPoW proof and block (primitives/block.h)\<close>

text \<open>
  Modelled from the spec: the serialization primitives of serialize.h and \<^verbatim>\<open>SerializeHash\<close>
  of hash.h (not part of the sources at hand). The header's own hash is the double
  SHA-256 (the parameter \<open>H\<close>) of the fixed six-field serialization written by
  \<^verbatim>\<open>CBlockHeader::SerializationOp\<close>: 32-bit integers little-endian, hashes as their 32
  raw bytes.
\<close>

definition ser_uint32 :: "32 word \<Rightarrow> byte list" where
  "ser_uint32 w = [ucast w, ucast (drop_bit 8 w), ucast (drop_bit 16 w), ucast (drop_bit 24 w)]"

definition Serialize_CBlockHeader :: "'a CBlockHeader_scheme \<Rightarrow> byte list" where
  "Serialize_CBlockHeader h =
     ser_uint32 (nVersion h) @ hashPrevBlock h @ hashMerkleRoot h @
     ser_uint32 (nTime h) @ ser_uint32 (nBits h) @ ser_uint32 (nNonce h)"

definition GetHash :: "(byte list \<Rightarrow> uint256) \<Rightarrow> 'a CBlockHeader_scheme \<Rightarrow> uint256" where
  "GetHash H h = H (Serialize_CBlockHeader h)"

text \<open>
  Modelled from the spec: \<^verbatim>\<open>CTxIn\<close> and \<^verbatim>\<open>CTransaction\<close> (primitives/transaction.h is not
  part of the sources at hand). Only what the functions below read is kept: the inputs
  with their signature scripts, and the transaction hash, which a transaction caches at
  construction and \<^verbatim>\<open>GetHash()\<close> returns.
\<close>

record CTxIn =
  scriptSig :: "byte list"

record CTransaction =
  vin :: "CTxIn list"
  tx_hash :: uint256

record CAuxPow =
  coinbaseTx :: CTransaction
  hashBlock :: uint256
  vMerkleBranch :: "uint256 list"
  nIndex :: int
  vChainMerkleBranch :: "uint256 list"
  nChainIndex :: int
  parentBlock :: CBlockHeader

definition GetParentBlockHash :: "(byte list \<Rightarrow> uint256) \<Rightarrow> CAuxPow \<Rightarrow> uint256" where
  "GetParentBlockHash H ap = GetHash H (parentBlock ap)"

text \<open>\<^verbatim>\<open>CBlock\<close> inherits from \<^verbatim>\<open>CBlockHeader\<close>; \<^verbatim>\<open>m_auxpow\<close> is a pointer that may be null.\<close>

record CBlock = CBlockHeader +
  vtx :: "CTransaction list"
  m_auxpow :: "CAuxPow option"

definition GetBlockHeader :: "CBlock \<Rightarrow> CBlockHeader" where
  "GetBlockHeader b =
     \<lparr> nVersion = nVersion b, hashPrevBlock = hashPrevBlock b,
       hashMerkleRoot = hashMerkleRoot b, nTime = nTime b, nBits = nBits b,
       nNonce = nNonce b \<rparr>"

definition GetPoWHash :: "(byte list \<Rightarrow> uint256) \<Rightarrow> CBlock \<Rightarrow> uint256" where
  "GetPoWHash H b =
     (case m_auxpow b of
        Some ap \<Rightarrow> if IsAuxpow b then GetParentBlockHash H ap else GetHash H b
      | None \<Rightarrow> GetHash H b)"

section \<open>AuxPoW verification (pow.cpp)\<close>

definition pchAuxPowHeader :: "byte list" where
  "pchAuxPowHeader = [0x70, 0x6c, 0x6d, 0x01]"

text \<open>
  \<^verbatim>\<open>std::search\<close>: the position of the first occurrence of the pattern in the range, or
  \<open>None\<close> for the end iterator when there is none.
\<close>

fun search :: "byte list \<Rightarrow> byte list \<Rightarrow> nat option" where
  "search [] pat = (if pat = [] then Some 0 else None)"
| "search (x # xs) pat =
     (if prefix pat (x # xs) then Some 0 else map_option Suc (search xs pat))"

text \<open>
  Every \<^verbatim>\<open>return error(...)\<close> of the function is one constructor. Reading \<^verbatim>\<open>vin[0]\<close> of a
  coinbase transaction without inputs is an out-of-range read, kept as a failure of its
  own.
\<close>

datatype auxpow_error =
    AuxNoVersionBit
  | AuxMissing
  | BadPoW
  | AuxBadMerkle
  | AuxMagicNotFound
  | AuxCommitmentTooShort
  | AuxCommitMismatch
  | AuxDuplicateParent
  | VinOutOfRange

text \<open>
  The process-wide set \<^verbatim>\<open>setAuxPowScannedParentHashes\<close> is passed in and returned, so that
  each effect of the function on it is visible.
\<close>

definition CheckAuxPowProofOfWork ::
  "(byte list \<Rightarrow> uint256) \<Rightarrow> CBlock \<Rightarrow> 'a Params_scheme \<Rightarrow> uint256 set
     \<Rightarrow> (auxpow_error + unit) \<times> uint256 set" where
  "CheckAuxPowProofOfWork H block params setAuxPowScannedParentHashes =
     (if \<not> IsAuxpow block then (Inl AuxNoVersionBit, setAuxPowScannedParentHashes)
      else case m_auxpow block of
        None \<Rightarrow> (Inl AuxMissing, setAuxPowScannedParentHashes)
      | Some ap \<Rightarrow>
          if \<not> CheckProofOfWork (GetParentBlockHash H ap) (nBits block) params
          then (Inl BadPoW, setAuxPowScannedParentHashes)
          else
            let hashCoinbase = tx_hash (coinbaseTx ap);
                calculatedMerkleRoot =
                  CheckMerkleBranch H hashCoinbase (vMerkleBranch ap) (nIndex ap)
            in
            if hashMerkleRoot (parentBlock ap) \<noteq> calculatedMerkleRoot
            then (Inl AuxBadMerkle, setAuxPowScannedParentHashes)
            else (case vin (coinbaseTx ap) of
              [] \<Rightarrow> (Inl VinOutOfRange, setAuxPowScannedParentHashes)
            | txin # _ \<Rightarrow>
                (case search (scriptSig txin) pchAuxPowHeader of
                   None \<Rightarrow> (Inl AuxMagicNotFound, setAuxPowScannedParentHashes)
                 | Some pc \<Rightarrow>
                     let vchCommitment = drop (pc + length pchAuxPowHeader) (scriptSig txin) in
                     if length vchCommitment < 32
                     then (Inl AuxCommitmentTooShort, setAuxPowScannedParentHashes)
                     else
                       let hashAuxBlockCommit = rev (take 32 vchCommitment);
                           headerNoAux = GetBlockHeader block;
                           headerNoAux' = headerNoAux
                             \<lparr> nVersion := nVersion headerNoAux AND NOT AUXPOW_VERSION_BIT \<rparr>;
                           hashAuxBlockExpected = GetHash H headerNoAux'
                       in
                       if hashAuxBlockCommit \<noteq> hashAuxBlockExpected
                       then (Inl AuxCommitMismatch, setAuxPowScannedParentHashes)
                       else if GetParentBlockHash H ap \<in> setAuxPowScannedParentHashes
                       then (Inl AuxDuplicateParent, setAuxPowScannedParentHashes)
                       else (Inr (), setAuxPowScannedParentHashes))))"

section \<open>Block index and difficulty retargeting (pow.cpp, consensus/params.h)\<close>

text \<open>
  Modelled from the spec: \<^verbatim>\<open>CBlockIndex\<close> and \<^verbatim>\<open>CBlockIndex::GetAncestor\<close> (chain.h and
  chain.cpp are not part of the sources at hand). An index entry carries its height, the
  time and compact target of its header, and the pointer \<^verbatim>\<open>pprev\<close> to its predecessor
  (null for the genesis entry). \<^verbatim>\<open>GetAncestor(h)\<close> is null when \<open>h\<close> is negative or above
  the entry's height, and otherwise the entry of height \<open>h\<close> reached along \<^verbatim>\<open>pprev\<close>.
\<close>

datatype CBlockIndex =
  CBlockIndex (nHeight: int) (idx_nTime: "32 word") (idx_nBits: "32 word")
    (pprev: "CBlockIndex option")

definition GetBlockTime :: "'a CBlockHeader_scheme \<Rightarrow> int" where
  "GetBlockTime h = uint (nTime h)"

definition idx_GetBlockTime :: "CBlockIndex \<Rightarrow> int" where
  "idx_GetBlockTime pindex = uint (idx_nTime pindex)"

fun walk_to :: "CBlockIndex \<Rightarrow> int \<Rightarrow> CBlockIndex option" where
  "walk_to (CBlockIndex h t b pp) height =
     (if h = height then Some (CBlockIndex h t b pp)
      else case pp of None \<Rightarrow> None | Some p \<Rightarrow> walk_to p height)"

definition GetAncestor :: "CBlockIndex \<Rightarrow> int \<Rightarrow> CBlockIndex option" where
  "GetAncestor pindex height =
     (if height > nHeight pindex \<or> height < 0 then None else walk_to pindex height)"

text \<open>
  Failures of the retargeting code: a failed \<^verbatim>\<open>assert\<close>, and a division or remainder by
  zero (of C++ integers, or the exception of \<^verbatim>\<open>arith_uint256\<close> division).
\<close>

datatype pow_error = AssertionFailed | DivisionByZero

text \<open>
  \<^verbatim>\<open>Params::DifficultyAdjustmentInterval\<close>. C++ integer division truncates towards zero
  (\<open>sdiv\<close>), the remainder \<^verbatim>\<open>%\<close> is \<open>smod\<close>. The quotient of the two \<^verbatim>\<open>int64_t\<close>
  parameters is returned as an \<^verbatim>\<open>int\<close>: it is narrowed to 32 bits, two's complement
  (\<open>4294967296\<close> becomes \<open>0\<close>).
\<close>

definition narrow_to_int :: "int \<Rightarrow> int" where
  "narrow_to_int x = sint (word_of_int x :: 32 word)"

definition DifficultyAdjustmentInterval :: "'a Params_scheme \<Rightarrow> int \<Rightarrow> pow_error + int" where
  "DifficultyAdjustmentInterval params nHeight' =
     (if nHeight' < 29000
      then if nPowTargetSpacing params = 0 then Inl DivisionByZero
           else Inr (narrow_to_int (nPowTargetTimespan params sdiv nPowTargetSpacing params))
      else if nPowTargetSpacingV2 params = 0 then Inl DivisionByZero
           else Inr (narrow_to_int (nPowTargetTimespan params sdiv nPowTargetSpacingV2 params)))"

text \<open>
  Modelled from the spec: the operators of \<^verbatim>\<open>arith_uint256\<close> (arith_uint256.h is not
  part of the sources at hand); arithmetic on targets is on unsigned 256-bit integers.
  Multiplying an \<^verbatim>\<open>arith_uint256\<close> by a 64-bit integer selects the \<^verbatim>\<open>uint32_t\<close> overload of
  the operator (an integral conversion is preferred to the converting constructor), so the
  factor is reduced modulo \<open>2^32\<close>. Division has only the \<^verbatim>\<open>arith_uint256\<close> overload: the
  divisor is converted through \<^verbatim>\<open>uint64_t\<close>. Both operations wrap modulo \<open>2^256\<close>, and
  division by zero throws.
\<close>

definition mul_u32 :: "arith_uint256 \<Rightarrow> int \<Rightarrow> arith_uint256" where
  "mul_u32 a b = a * ucast (word_of_int b :: 32 word)"

definition div_u64 :: "arith_uint256 \<Rightarrow> int \<Rightarrow> pow_error + arith_uint256" where
  "div_u64 a b =
     (let d = ucast (word_of_int b :: 64 word) :: arith_uint256
      in if d = 0 then Inl DivisionByZero else Inr (a div d))"

definition CalculateNextWorkRequired ::
  "CBlockIndex \<Rightarrow> int \<Rightarrow> 'a Params_scheme \<Rightarrow> pow_error + 32 word" where
  "CalculateNextWorkRequired pindexLast nFirstBlockTime params =
     (if fPowNoRetargeting params then Inr (idx_nBits pindexLast)
      else
        let nActualTimespan0 = idx_GetBlockTime pindexLast - nFirstBlockTime;
            nActualTimespan1 =
              (if nActualTimespan0 < nPowTargetTimespan params sdiv 4
               then nPowTargetTimespan params sdiv 4 else nActualTimespan0);
            nActualTimespan =
              (if nActualTimespan1 > nPowTargetTimespan params * 4
               then nPowTargetTimespan params * 4 else nActualTimespan1);
            bnPowLimit = UintToArith256 (powLimit params);
            bnNew0 = mul_u32 (target_of (idx_nBits pindexLast)) nActualTimespan
        in case div_u64 bnNew0 (nPowTargetTimespan params) of
             Inl e \<Rightarrow> Inl e
           | Inr bnNew \<Rightarrow>
               Inr (GetCompact (if bnNew > bnPowLimit then bnPowLimit else bnNew)))"

text \<open>
  The loop of \<^verbatim>\<open>LwmaCalculateNextWorkRequired\<close> over the heights \<open>i\<close> up to \<open>height\<close>. Its
  state is \<open>(previousTimestamp, j, t, sumTarget)\<close>; \<open>None\<close> is the early return taken when
  \<^verbatim>\<open>GetAncestor\<close> yields null.
\<close>

function lwma_loop ::
  "CBlockIndex \<Rightarrow> int \<Rightarrow> int \<Rightarrow> int \<Rightarrow> int \<times> int \<times> int \<times> arith_uint256
     \<Rightarrow> (int \<times> arith_uint256) option" where
  "lwma_loop pindexLast T height i (previousTimestamp, j, t, sumTarget) =
     (if i \<le> height then
        case GetAncestor pindexLast i of
          None \<Rightarrow> None
        | Some blockCurrent \<Rightarrow>
            let thisTimestamp0 = idx_GetBlockTime blockCurrent;
                thisTimestamp =
                  (if thisTimestamp0 < previousTimestamp then previousTimestamp
                   else thisTimestamp0);
                solvetime0 = max 1 (thisTimestamp - previousTimestamp);
                solvetime = min (6 * T) solvetime0;
                j' = j + 1;
                t' = t + solvetime * j';
                target = target_of (idx_nBits blockCurrent)
            in lwma_loop pindexLast T height (i + 1) (thisTimestamp, j', t', sumTarget + target)
      else Some (t, sumTarget))"
  by pat_completeness auto
termination
  by (relation "measure (\<lambda>(pindexLast, T, height, i, st). nat (height + 1 - i))") auto

declare lwma_loop.simps [simp del]

definition LwmaCalculateNextWorkRequired ::
  "CBlockIndex \<Rightarrow> 'a Params_scheme \<Rightarrow> pow_error + 32 word" where
  "LwmaCalculateNextWorkRequired pindexLast params =
     (let T = nPowTargetSpacingV2 params;
          N = 240;
          k = (N * (N + 1) * T) sdiv 2;
          height = nHeight pindexLast;
          powLimit' = UintToArith256 (powLimit params)
      in
      if height = 0 then Inr (GetCompact powLimit')
      else if height < N then Inr (GetCompact powLimit')
      else (case GetAncestor pindexLast (height - N) of
        None \<Rightarrow> Inr (GetCompact powLimit')
      | Some blockStart \<Rightarrow>
          (case lwma_loop pindexLast T height (height - N + 1)
                  (idx_GetBlockTime blockStart, 0, 0, 0) of
             None \<Rightarrow> Inr (GetCompact powLimit')
           | Some (t, sumTarget) \<Rightarrow>
               if N = 0 \<or> T = 0 \<or> k = 0 then Inr (GetCompact powLimit')
               else
                 (case div_u64 sumTarget N of
                    Inl e \<Rightarrow> Inl e
                  | Inr avgTarget \<Rightarrow>
                      (case div_u64 (mul_u32 avgTarget t) (k * T) of
                         Inl e \<Rightarrow> Inl e
                       | Inr nextTarget \<Rightarrow>
                           Inr (GetCompact
                                  (if nextTarget > powLimit' then powLimit'
                                   else nextTarget)))))))"

text \<open>
  The \<^verbatim>\<open>while\<close> loop of the min-difficulty rule: walk back while there is a predecessor,
  the height is not a multiple of the adjustment interval, and the entry has the
  proof-of-work limit as its target.
\<close>

fun last_non_min_difficulty ::
  "'a Params_scheme \<Rightarrow> 32 word \<Rightarrow> CBlockIndex \<Rightarrow> pow_error + CBlockIndex" where
  "last_non_min_difficulty params nProofOfWorkLimit (CBlockIndex h t b None) =
     Inr (CBlockIndex h t b None)"
| "last_non_min_difficulty params nProofOfWorkLimit (CBlockIndex h t b (Some p)) =
     (case DifficultyAdjustmentInterval params h of
        Inl e \<Rightarrow> Inl e
      | Inr interval \<Rightarrow>
          if interval = 0 then Inl DivisionByZero
          else if h smod interval \<noteq> 0 \<and> b = nProofOfWorkLimit
          then last_non_min_difficulty params nProofOfWorkLimit p
          else Inr (CBlockIndex h t b (Some p)))"

text \<open>
  The part of \<^verbatim>\<open>GetNextWorkRequired\<close> after the two early returns (the legacy algorithm,
  lines 55 to 89 of pow.cpp), for the height \<open>nHeight'\<close> of the next block.
\<close>

definition legacy_retarget ::
  "CBlockIndex \<Rightarrow> 'b CBlockHeader_scheme \<Rightarrow> 'a Params_scheme \<Rightarrow> pow_error + 32 word" where
  "legacy_retarget pindexLast pblock params =
     (let nProofOfWorkLimit = GetCompact (UintToArith256 (powLimit params));
          nHeight' = nHeight pindexLast + 1
      in case DifficultyAdjustmentInterval params nHeight' of
        Inl e \<Rightarrow> Inl e
      | Inr interval \<Rightarrow>
          if interval = 0 then Inl DivisionByZero
          else if nHeight' smod interval \<noteq> 0 then
            (if fPowAllowMinDifficultyBlocks params then
               (if GetBlockTime pblock
                     > idx_GetBlockTime pindexLast + nPowTargetSpacing params * 2
                then Inr nProofOfWorkLimit
                else (case last_non_min_difficulty params nProofOfWorkLimit pindexLast of
                        Inl e \<Rightarrow> Inl e
                      | Inr pindex \<Rightarrow> Inr (idx_nBits pindex)))
             else Inr (idx_nBits pindexLast))
          else
            let nHeightFirst = nHeight pindexLast - (interval - 1) in
            if nHeightFirst < 0 then Inl AssertionFailed
            else (case GetAncestor pindexLast nHeightFirst of
              None \<Rightarrow> Inl AssertionFailed
            | Some pindexFirst \<Rightarrow>
                CalculateNextWorkRequired pindexLast (idx_GetBlockTime pindexFirst) params))"

definition GetNextWorkRequired ::
  "CBlockIndex \<Rightarrow> 'b CBlockHeader_scheme \<Rightarrow> 'a Params_scheme \<Rightarrow> pow_error + 32 word" where
  "GetNextWorkRequired pindexLast pblock params =
     (let nProofOfWorkLimit = GetCompact (UintToArith256 (powLimit params)) in
      if nHeight pindexLast \<ge> 28930 \<and> nHeight pindexLast \<le> 28999
      then Inr nProofOfWorkLimit
      else
        let nHeight' = nHeight pindexLast + 1 in
        if nHeight' \<ge> 29000 then LwmaCalculateNextWorkRequired pindexLast params
        else legacy_retarget pindexLast pblock params)"

section \<open>Block deserialization (primitives/block.h)\<close>







section \<open>Block submission (rpc/mining.cpp)\<close>

text \<open>
  Modelled from the spec: \<^verbatim>\<open>BlockValidationState\<close> and \<^verbatim>\<open>BlockValidationResult\<close>
  (consensus/validation.h is not part of the sources at hand). A validation state is
  valid, invalid or an internal error, and an invalid one carries a result code and a
  reject reason; \<open>state_ToString\<close> is its textual form. Of the result codes only those
  that \<^verbatim>\<open>BIP22ValidationResult\<close> tests are told apart.
\<close>

datatype state_mode = MODE_VALID | MODE_INVALID | MODE_ERROR

datatype BlockValidationResult =
  BLOCK_HEADER_DUPLICATE | BLOCK_INVALID_HEADER | BLOCK_INVALID_PREV | BLOCK_RESULT_OTHER

record BlockValidationState =
  state_mode :: state_mode
  state_result :: BlockValidationResult
  state_reject_reason :: string
  state_ToString :: string

datatype UniValue = NullUniValue | VSTR string

datatype RPCErrorCode = RPC_DESERIALIZATION_ERROR | RPC_VERIFY_ERROR

datatype rpc_error = JSONRPCError RPCErrorCode string

definition BIP22ValidationResult :: "BlockValidationState \<Rightarrow> rpc_error + UniValue" where
  "BIP22ValidationResult state =
     (if state_mode state = MODE_VALID then Inr NullUniValue
      else if state_mode state = MODE_ERROR
      then Inl (JSONRPCError RPC_VERIFY_ERROR (state_ToString state))
      else
        let strRejectReason = state_reject_reason state in
        if strRejectReason = [] then Inr (VSTR ''rejected'')
        else if (state_result state = BLOCK_HEADER_DUPLICATE
                   \<or> state_result state = BLOCK_INVALID_HEADER)
                \<and> strRejectReason = ''duplicate''
        then Inr (VSTR ''duplicate'')
        else if (state_result state = BLOCK_HEADER_DUPLICATE
                   \<or> state_result state = BLOCK_INVALID_HEADER)
                \<and> strRejectReason = ''duplicate-invalid''
        then Inr (VSTR ''duplicate-invalid'')
        else if state_result state = BLOCK_INVALID_PREV
        then Inr (VSTR ''inconclusive-not-best-prevblk'')
        else Inr (VSTR strRejectReason))"

text \<open>
  What \<^verbatim>\<open>submitblock\<close> reads from the node: the hex decoder, the block index
  (\<^verbatim>\<open>LookupBlockIndex\<close>) with the two status tests made on an entry, the consensus
  parameters, the hash function, the coinbase test of a transaction, and the outcome of
  \<^verbatim>\<open>ProcessNewBlock\<close> as the registered state catcher and the two result flags report it.
\<close>

record ProcessNewBlock_outcome =
  sc_found :: bool
  sc_state :: BlockValidationState
  accepted :: bool
  new_block :: bool

record node =
  DecodeHexBlk :: "string \<Rightarrow> CBlock option"
  LookupBlockIndex :: "uint256 \<Rightarrow> CBlockIndex option"
  IsValid_scripts :: "CBlockIndex \<Rightarrow> bool"
  IsFailed :: "CBlockIndex \<Rightarrow> bool"
  consensus :: Params
  HashFn :: "byte list \<Rightarrow> uint256"
  IsCoinBase :: "CTransaction \<Rightarrow> bool"
  ProcessNewBlock :: "CBlock \<Rightarrow> ProcessNewBlock_outcome"

text \<open>\<^verbatim>\<open>submitblock\<close> after the AuxPoW consistency checks (lines 967 to 1032).\<close>

definition submitblock_process :: "node \<Rightarrow> CBlock \<Rightarrow> rpc_error + UniValue" where
  "submitblock_process nd block =
     (if (case vtx block of [] \<Rightarrow> True | tx0 # _ \<Rightarrow> \<not> IsCoinBase nd tx0)
      then Inr (VSTR ''rejected: bad-cb-missing'')
      else
        let hash = GetHash (HashFn nd) block;
            known = LookupBlockIndex nd hash
        in
        if (case known of None \<Rightarrow> False | Some pindex \<Rightarrow> IsValid_scripts nd pindex)
        then Inr (VSTR ''duplicate'')
        else if (case known of None \<Rightarrow> False | Some pindex \<Rightarrow> IsFailed nd pindex)
        then Inr (VSTR ''duplicate-invalid'')
        else (case LookupBlockIndex nd (hashPrevBlock block) of
          None \<Rightarrow> Inr (VSTR ''inconclusive - not-best-prevblk'')
        | Some pindex \<Rightarrow>
            let r = ProcessNewBlock nd block in
            if sc_found r then BIP22ValidationResult (sc_state r)
            else if \<not> accepted r then Inr (VSTR ''rejected'')
            else if \<not> new_block r then Inr (VSTR ''duplicate'')
            else Inr NullUniValue))"

definition submitblock :: "node \<Rightarrow> string \<Rightarrow> rpc_error + UniValue" where
  "submitblock nd hexdata =
     (case DecodeHexBlk nd hexdata of
        None \<Rightarrow> Inl (JSONRPCError RPC_DESERIALIZATION_ERROR ''Block decode failed'')
      | Some block \<Rightarrow>
          let fBlockHasAuxPow = IsAuxpow block;
              consensusParams = consensus nd;
              height =
                (case LookupBlockIndex nd (hashPrevBlock block) of
                   Some pindexPrev \<Rightarrow> Some (nHeight pindexPrev + 1)
                 | None \<Rightarrow>
                     if GetHash (HashFn nd) block = hashGenesisBlock consensusParams
                     then Some 0 else None)
          in (case height of
            None \<Rightarrow>
              Inl (JSONRPCError RPC_VERIFY_ERROR ''Block rejected: previous block not known'')
          | Some nHeight' \<Rightarrow>
              let fShouldHaveAuxPow = (nHeight' \<ge> nAuxpowStartHeight consensusParams) in
              if fShouldHaveAuxPow \<and> \<not> fBlockHasAuxPow
              then Inr (VSTR ''rejected: bad-auxpow-version-missing'')
              else if \<not> fShouldHaveAuxPow \<and> fBlockHasAuxPow
              then Inr (VSTR ''rejected: bad-auxpow-unexpected'')
              else if fShouldHaveAuxPow \<and> m_auxpow block = None
              then Inr (VSTR ''rejected: bad-auxpow-data-missing'')
              else submitblock_process nd block))"

section \<open>Concrete inputs\<close>

text \<open>
  The consensus parameters of the main network (\<^verbatim>\<open>CMainParams\<close> in chainparams.cpp).
  \<^verbatim>\<open>uint256S\<close> reads a big-endian hex string, so the bytes are listed from the least
  significant one; \<^verbatim>\<open>nAuxpowStartHeight\<close> keeps the default of the constructor of
  \<^verbatim>\<open>Params\<close>, \<^verbatim>\<open>MAX_BLOCK_HEIGHT\<close>.
\<close>

definition main_powLimit :: uint256 where
  "main_powLimit =
     [0xff, 0xff, 0xff, 0xff, 0xff, 0xff, 0xff, 0xff, 0xff, 0xff, 0xff, 0xff, 0xff, 0xff,
      0xff, 0xff, 0xff, 0xff, 0xff, 0xff, 0xff, 0xff, 0xff, 0xff, 0xff, 0xff, 0xff, 0xff,
      0x00, 0x00, 0x00, 0x00]"

definition main_hashGenesisBlock :: uint256 where
  "main_hashGenesisBlock =
     [0x6f, 0xe2, 0x8c, 0x0a, 0xb6, 0xf1, 0xb3, 0x72, 0xc1, 0xa6, 0xa2, 0x46, 0xae, 0x63,
      0xf7, 0x4f, 0x93, 0x1e, 0x83, 0x65, 0xe1, 0x5a, 0x08, 0x9c, 0x68, 0xd6, 0x19, 0x00,
      0x00, 0x00, 0x00, 0x00]"

definition MAX_BLOCK_HEIGHT :: int where
  "MAX_BLOCK_HEIGHT = 2147483647"

definition main_consensus :: Params where
  "main_consensus =
     \<lparr> hashGenesisBlock = main_hashGenesisBlock,
       powLimit = main_powLimit,
       fPowAllowMinDifficultyBlocks = False,
       fPowNoRetargeting = False,
       nPowTargetSpacing = 10 * 60,
       nPowTargetSpacingV2 = 2 * 60,
       nPowTargetTimespan = 24 * 60 * 60,
       nAuxpowStartHeight = MAX_BLOCK_HEIGHT \<rparr>"

text \<open>
  A chain of index entries of heights \<open>0, \<dots>, n\<close>, linked by \<^verbatim>\<open>pprev\<close>, all with the same
  time and the same compact target; the value is the entry of height \<open>n\<close>.
\<close>

fun flat_chain :: "32 word \<Rightarrow> 32 word \<Rightarrow> nat \<Rightarrow> CBlockIndex" where
  "flat_chain t b 0 = CBlockIndex 0 t b None"
| "flat_chain t b (Suc n) = CBlockIndex (int (Suc n)) t b (Some (flat_chain t b n))"

text \<open>
  A default-constructed header (\<^verbatim>\<open>CBlockHeader::SetNull\<close>), and the main network parameters
  with retargeting switched off.
\<close>

definition null_header :: CBlockHeader where
  "null_header =
     \<lparr> nVersion = 7, hashPrevBlock = uint256_null, hashMerkleRoot = uint256_null,
       nTime = 0, nBits = 0, nNonce = 0 \<rparr>"

definition noretarget_consensus :: Params where
  "noretarget_consensus = main_consensus \<lparr> fPowNoRetargeting := True \<rparr>"

text \<open>
  The same parameters with a target timespan of \<open>600 \<cdot> 2^32\<close> seconds: its quotient by the
  target spacing, \<open>2^32\<close>, does not fit an \<^verbatim>\<open>int\<close>.
\<close>

definition wide_timespan_consensus :: Params where
  "wide_timespan_consensus = noretarget_consensus \<lparr> nPowTargetTimespan := 600 * 4294967296 \<rparr>"

text \<open>
  Two stand-ins for the hash function parameter (every input hashed to the all-zero and to
  the all-ones value), and a block merge-mined in the simplest way: the parent coinbase is
  the only leaf of the parent's Merkle tree and its one signature script is the magic
  prefix followed by a 32-byte commitment.
\<close>

definition zero_hash :: "byte list \<Rightarrow> uint256" where
  "zero_hash bs = uint256_null"

definition ones_hash :: "byte list \<Rightarrow> uint256" where
  "ones_hash bs = replicate 32 0xff"

definition ex_coinbase :: CTransaction where
  "ex_coinbase = \<lparr> vin = [\<lparr> scriptSig = pchAuxPowHeader @ uint256_null \<rparr>],
                   tx_hash = uint256_null \<rparr>"

definition ex_auxpow :: CAuxPow where
  "ex_auxpow =
     \<lparr> coinbaseTx = ex_coinbase, hashBlock = uint256_null, vMerkleBranch = [], nIndex = 0,
       vChainMerkleBranch = [], nChainIndex = 0,
       parentBlock = null_header \<lparr> nBits := 0x1d00ffff \<rparr> \<rparr>"

definition ex_auxpow_block :: CBlock where
  "ex_auxpow_block =
     \<lparr> nVersion = 0x107, hashPrevBlock = uint256_null, hashMerkleRoot = uint256_null,
       nTime = 0, nBits = 0x1d00ffff, nNonce = 0,
       vtx = [ex_coinbase], m_auxpow = Some ex_auxpow \<rparr>"

text \<open>
  A node for \<^verbatim>\<open>submitblock\<close>: the hex string \<open>00\<close> decodes to the given block, the block
  index knows one block, of height 100, under the all-zero hash, and block processing
  accepts. Beside the main network parameters, parameters with AuxPoW starting at height
  50; beside the merge-mined block, one without the AuxPoW flag and one whose predecessor
  is unknown.
\<close>

definition auxpow_consensus :: Params where
  "auxpow_consensus = main_consensus \<lparr> nAuxpowStartHeight := 50 \<rparr>"

definition valid_state :: BlockValidationState where
  "valid_state =
     \<lparr> state_mode = MODE_VALID, state_result = BLOCK_RESULT_OTHER,
       state_reject_reason = [], state_ToString = ''Valid'' \<rparr>"

definition ex_node :: "Params \<Rightarrow> CBlock \<Rightarrow> node" where
  "ex_node params block =
     \<lparr> DecodeHexBlk = (\<lambda>hexdata. if hexdata = ''00'' then Some block else None),
       LookupBlockIndex =
         (\<lambda>hash. if hash = uint256_null then Some (flat_chain 0 0x1d00ffff 100) else None),
       IsValid_scripts = (\<lambda>pindex. False),
       IsFailed = (\<lambda>pindex. False),
       consensus = params,
       HashFn = ones_hash,
       IsCoinBase = (\<lambda>tx. True),
       ProcessNewBlock =
         (\<lambda>block. \<lparr> sc_found = True, sc_state = valid_state, accepted = True,
                     new_block = True \<rparr>) \<rparr>"

definition ex_plain_block :: CBlock where
  "ex_plain_block = ex_auxpow_block \<lparr> nVersion := 7, m_auxpow := None \<rparr>"

















section \<open>Facts about the compact codec\<close>

lemma bit_lt_if_unat_lt:
  fixes m :: "32 word"
  assumes "unat m < 2 ^ k" "bit m i" shows "i < k"
proof -
  have "take_bit k (unat m) = unat m" using assms(1) by (simp add: take_bit_nat_eq_self)
  moreover have "bit (unat m) i" using assms(2) by (simp add: bit_unsigned_iff)
  ultimately have "bit (take_bit k (unat m)) i" by simp
  then show ?thesis by (simp add: bit_take_bit_iff)
qed

lemma bit_sign_const: "bit (0x00800000 :: 32 word) n \<longleftrightarrow> n = 23"
proof -
  have e: "(0x00800000 :: 32 word) = 2 ^ 23" by simp
  show ?thesis unfolding e by (simp only: bit_exp_iff) auto
qed

lemma mant_size_sign:
  fixes m :: "32 word"
  assumes "unat m < 2 ^ 23"
  shows "(m OR push_bit 24 S) AND 0x00800000 = 0"
proof (rule bit_eqI)
  fix n
  have "\<not> bit m 23" using bit_lt_if_unat_lt [OF assms, of 23] by auto
  then show "bit ((m OR push_bit 24 S) AND 0x00800000) n = bit (0 :: 32 word) n"
    unfolding bit_and_iff bit_sign_const bit_or_iff bit_push_bit_iff by auto
qed



















section \<open>Facts about the example chain and the main network parameters\<close>

lemma flat_chain_sel [simp]:
  "nHeight (flat_chain t b n) = int n"
  "idx_nTime (flat_chain t b n) = t"
  "idx_nBits (flat_chain t b n) = b"
  by (cases n; simp)+

lemma walk_to_flat_chain:
  "h \<le> n \<Longrightarrow> walk_to (flat_chain t b n) (int h) = Some (flat_chain t b h)"
proof (induction n)
  case 0
  then show ?case by simp
next
  case (Suc n)
  show ?case
  proof (cases "h = Suc n")
    case True
    then show ?thesis by simp
  next
    case False
    then have "h \<le> n" using Suc.prems by simp
    then show ?thesis using Suc.IH False by simp
  qed
qed

lemma GetAncestor_flat_chain:
  assumes "0 \<le> h" "h \<le> int n"
  shows "GetAncestor (flat_chain t b n) h = Some (flat_chain t b (nat h))"
proof -
  have "walk_to (flat_chain t b n) (int (nat h)) = Some (flat_chain t b (nat h))"
    by (rule walk_to_flat_chain) (use assms in simp)
  then show ?thesis using assms by (simp add: GetAncestor_def)
qed

lemma lwma_loop_flat_chain:
  assumes "1 \<le> 6 * T"
  shows "c = nat (int n + 1 - i) \<Longrightarrow> 0 \<le> i \<Longrightarrow> i \<le> int n + 1 \<Longrightarrow>
         lwma_loop (flat_chain t b n) T (int n) i (uint t, j, tt, sm) =
           Some (tt + int c * j + (int c * (int c + 1)) div 2,
                 sm + of_nat c * target_of b)"
proof (induction c arbitrary: i j tt sm)
  case 0
  then have "\<not> i \<le> int n" by simp
  then show ?case by (subst lwma_loop.simps) simp
next
  case (Suc c)
  then have le: "i \<le> int n" by simp
  have c: "c = nat (int n + 1 - (i + 1))" using Suc.prems by simp
  have ih: "lwma_loop (flat_chain t b n) T (int n) (i + 1) (uint t, j + 1, tt + (j + 1), sm + target_of b) =
           Some (tt + (j + 1) + int c * (j + 1) + (int c * (int c + 1)) div 2,
                 sm + target_of b + of_nat c * target_of b)"
    by (rule Suc.IH [OF c]) (use Suc.prems le in simp_all)
  have e: "(int (Suc c) * (int (Suc c) + 1)) div 2 = (int c * (int c + 1)) div 2 + int c + 1"
  proof -
    have "int (Suc c) * (int (Suc c) + 1) = int c * (int c + 1) + 2 * (int c + 1)"
      by (simp add: algebra_simps)
    then show ?thesis by simp
  qed
  have step: "lwma_loop (flat_chain t b n) T (int n) i (uint t, j, tt, sm) =
              lwma_loop (flat_chain t b n) T (int n) (i + 1)
                (uint t, j + 1, tt + (j + 1), sm + target_of b)"
    by (subst lwma_loop.simps)
       (use le Suc.prems(2) assms in
         \<open>simp add: GetAncestor_flat_chain idx_GetBlockTime_def Let_def\<close>)
  show ?case unfolding step ih e by (simp add: algebra_simps)
qed


lemma GetCompact_main_powLimit: "GetCompact (UintToArith256 main_powLimit) = 0x1d00ffff"
  by (simp add: main_powLimit_def UintToArith256_def GetCompact_def bits_def compute_floorlog Let_def)

lemma target_one: "target_of 0x01010000 = 1"
  by (simp add: target_of_def SetCompact_def Let_def)

lemma GetCompact_0: "GetCompact 0 = 0"
  by (simp add: GetCompact_def bits_def compute_floorlog Let_def)



section \<open>Claims about the proof-of-work check and the Merkle branch\<close>

text \<open>
  Claim C1. For every 256-bit hash, compact value and consensus parameters,
  \<^verbatim>\<open>CheckProofOfWork\<close> returns true if and only if the target decoded from the compact
  value is not negative, not zero, not overflowing and at most \<^verbatim>\<open>powLimit\<close>, and the hash,
  read as an unsigned 256-bit integer, is less than or equal to the decoded target.
\<close>

theorem CheckProofOfWork_iff:
  "CheckProofOfWork hash nBits' params \<longleftrightarrow>
     \<not> fst (snd (SetCompact nBits')) \<and>
     unat (target_of nBits') \<noteq> 0 \<and>
     \<not> snd (snd (SetCompact nBits')) \<and>
     unat (target_of nBits') \<le> unat (UintToArith256 (powLimit params)) \<and>
     unat (UintToArith256 hash) \<le> unat (target_of nBits')"
  by (cases "SetCompact nBits'")
     (auto simp: CheckProofOfWork_def target_of_def word_le_nat_alt word_less_nat_alt unat_eq_0)

text \<open>
  Claim C10. With an empty sibling branch the computed Merkle root is the leaf itself, for
  every leaf hash and every index, so that comparing the computed root with a known root
  is the comparison of the leaf with that root.
\<close>

theorem ComputeMerkleRootFromBranch_empty:
  "ComputeMerkleRootFromBranch H h [] i = h \<and>
   (CheckMerkleBranch H h [] i = r \<longleftrightarrow> h = r)"
  by (simp add: CheckMerkleBranch_def)

section \<open>Claims about difficulty retargeting\<close>




lemma legacy_between_retargets:
  "legacy_retarget (flat_chain 0 0x1c00ffff 100) null_header main_consensus = Inr 0x1c00ffff"
  by (simp add: legacy_retarget_def Let_def DifficultyAdjustmentInterval_def narrow_to_int_def
      main_consensus_def signed_divide_int_def signed_modulo_int_def)

lemma wide_timespan_interval:
  "DifficultyAdjustmentInterval wide_timespan_consensus 144 = Inr 0"
  by (simp add: DifficultyAdjustmentInterval_def narrow_to_int_def wide_timespan_consensus_def
      noretarget_consensus_def main_consensus_def signed_divide_int_def)

lemma wide_timespan_divides_by_zero:
  "GetNextWorkRequired (flat_chain 0 0x1c00ffff 143) null_header wide_timespan_consensus =
     Inl DivisionByZero"
  by (simp add: GetNextWorkRequired_def legacy_retarget_def Let_def wide_timespan_interval)

lemma Lwma_example_29000:
  "LwmaCalculateNextWorkRequired (flat_chain 0 0x01010000 29000) main_consensus = Inr 0"
proof -
  have loop: "lwma_loop (flat_chain 0 0x01010000 29000) 120 29000 28761 (0, 0, 0, 0) = Some (28920, 240)"
    using lwma_loop_flat_chain [of 120 240 29000 28761 0 "0x01010000" 0 0 0]
    by (simp add: target_one)
  show ?thesis
    by (simp add: LwmaCalculateNextWorkRequired_def Let_def main_consensus_def
        GetAncestor_flat_chain idx_GetBlockTime_def loop div_u64_def mul_u32_def
        signed_divide_int_def GetCompact_0)
qed

text \<open>
  Claim C2. For every predecessor index: if its height lies in the inclusive range
  28930 to 28999, \<^verbatim>\<open>GetNextWorkRequired\<close> returns \<^verbatim>\<open>powLimit\<close> in compact form; otherwise,
  if the height plus one is at least 29000, it returns the LWMA retarget; otherwise it
  returns the legacy retarget.
\<close>

theorem GetNextWorkRequired_selection:
  "(28930 \<le> nHeight pindexLast \<and> nHeight pindexLast \<le> 28999 \<longrightarrow>
      GetNextWorkRequired pindexLast pblock params =
        Inr (GetCompact (UintToArith256 (powLimit params)))) \<and>
   (\<not> (28930 \<le> nHeight pindexLast \<and> nHeight pindexLast \<le> 28999) \<and>
      29000 \<le> nHeight pindexLast + 1 \<longrightarrow>
      GetNextWorkRequired pindexLast pblock params =
        LwmaCalculateNextWorkRequired pindexLast params) \<and>
   (\<not> (28930 \<le> nHeight pindexLast \<and> nHeight pindexLast \<le> 28999) \<and>
      \<not> 29000 \<le> nHeight pindexLast + 1 \<longrightarrow>
      GetNextWorkRequired pindexLast pblock params =
        legacy_retarget pindexLast pblock params)"
  by (auto simp: GetNextWorkRequired_def Let_def)

theorem GetNextWorkRequired_selection_witness:
  "GetNextWorkRequired (flat_chain 0 0x1c00ffff 28950) null_header main_consensus = Inr 0x1d00ffff \<and>
   GetNextWorkRequired (flat_chain 0 0x01010000 29000) null_header main_consensus = Inr 0 \<and>
   GetNextWorkRequired (flat_chain 0 0x1c00ffff 100) null_header main_consensus = Inr 0x1c00ffff"
proof -
  have a: "GetNextWorkRequired (flat_chain 0 0x1c00ffff 28950) null_header main_consensus = Inr 0x1d00ffff"
    using GetNextWorkRequired_selection [of "flat_chain 0 0x1c00ffff 28950" null_header main_consensus]
    by (simp add: GetCompact_main_powLimit main_consensus_def)
  have b: "GetNextWorkRequired (flat_chain 0 0x01010000 29000) null_header main_consensus = Inr 0"
    using GetNextWorkRequired_selection [of "flat_chain 0 0x01010000 29000" null_header main_consensus]
    by (simp add: Lwma_example_29000)
  have c: "GetNextWorkRequired (flat_chain 0 0x1c00ffff 100) null_header main_consensus = Inr 0x1c00ffff"
    using GetNextWorkRequired_selection [of "flat_chain 0 0x1c00ffff 100" null_header main_consensus]
    by (simp add: legacy_between_retargets)
  show ?thesis using a b c by simp
qed


text \<open>
  Claim C7, as amended. If \<^verbatim>\<open>fPowNoRetargeting\<close> is set, \<^verbatim>\<open>CalculateNextWorkRequired\<close>
  returns the compact target of the predecessor unchanged, and so does
  \<^verbatim>\<open>GetNextWorkRequired\<close> when the predecessor's height is below 28930, the adjustment
  interval that \<^verbatim>\<open>DifficultyAdjustmentInterval\<close> returns for the next height (an \<^verbatim>\<open>int\<close>) is
  not zero, and either the next height is a retarget boundary whose first block is an
  ancestor, or it is not a boundary and min-difficulty blocks are not allowed. Where the
  interval is zero the remainder divides by zero (\<open>wide_timespan_divides_by_zero\<close>).
\<close>

theorem NoRetargeting_returns_bits:
  assumes "fPowNoRetargeting params"
  shows "CalculateNextWorkRequired pindexLast nFirstBlockTime params = Inr (idx_nBits pindexLast) \<and>
         (nHeight pindexLast < 28930 \<and>
          DifficultyAdjustmentInterval params (nHeight pindexLast + 1) = Inr interval \<and>
          interval \<noteq> 0 \<and>
          ((nHeight pindexLast + 1) smod interval = 0 \<and>
             0 \<le> nHeight pindexLast - (interval - 1) \<and>
             GetAncestor pindexLast (nHeight pindexLast - (interval - 1)) \<noteq> None
           \<or> (nHeight pindexLast + 1) smod interval \<noteq> 0 \<and>
             \<not> fPowAllowMinDifficultyBlocks params)
          \<longrightarrow> GetNextWorkRequired pindexLast pblock params = Inr (idx_nBits pindexLast))"
  using assms
  by (auto simp: CalculateNextWorkRequired_def GetNextWorkRequired_def legacy_retarget_def Let_def
      split: option.splits)

theorem NoRetargeting_returns_bits_witness:
  "fPowNoRetargeting noretarget_consensus \<and>
   nHeight (flat_chain 0 0x1c00ffff 143) < 28930 \<and>
   DifficultyAdjustmentInterval noretarget_consensus (nHeight (flat_chain 0 0x1c00ffff 143) + 1) = Inr 144 \<and>
   (nHeight (flat_chain 0 0x1c00ffff 143) + 1) smod 144 = 0 \<and>
   GetAncestor (flat_chain 0 0x1c00ffff 143) (nHeight (flat_chain 0 0x1c00ffff 143) - (144 - 1)) \<noteq> None \<and>
   GetNextWorkRequired (flat_chain 0 0x1c00ffff 143) null_header noretarget_consensus = Inr 0x1c00ffff \<and>
   DifficultyAdjustmentInterval noretarget_consensus (nHeight (flat_chain 0 0x1c00ffff 100) + 1) = Inr 144 \<and>
   (nHeight (flat_chain 0 0x1c00ffff 100) + 1) smod 144 \<noteq> 0 \<and>
   \<not> fPowAllowMinDifficultyBlocks noretarget_consensus \<and>
   GetNextWorkRequired (flat_chain 0 0x1c00ffff 100) null_header noretarget_consensus = Inr 0x1c00ffff \<and>
   CalculateNextWorkRequired (flat_chain 0 0x1c00ffff 143) 0 noretarget_consensus = Inr 0x1c00ffff"
proof -
  have h: "fPowNoRetargeting noretarget_consensus"
    by (simp add: noretarget_consensus_def main_consensus_def)
  have i: "DifficultyAdjustmentInterval noretarget_consensus (nHeight (flat_chain 0 0x1c00ffff 143) + 1) = Inr 144"
    by (simp add: DifficultyAdjustmentInterval_def narrow_to_int_def noretarget_consensus_def
        main_consensus_def signed_divide_int_def)
  have m: "(nHeight (flat_chain 0 0x1c00ffff 143) + 1) smod 144 = 0"
    by (simp add: signed_modulo_int_def)
  have a: "GetAncestor (flat_chain 0 0x1c00ffff 143) (nHeight (flat_chain 0 0x1c00ffff 143) - (144 - 1)) \<noteq> None"
    by (simp add: GetAncestor_flat_chain)
  have i': "DifficultyAdjustmentInterval noretarget_consensus (nHeight (flat_chain 0 0x1c00ffff 100) + 1) = Inr 144"
    by (simp add: DifficultyAdjustmentInterval_def narrow_to_int_def noretarget_consensus_def
        main_consensus_def signed_divide_int_def)
  have m': "(nHeight (flat_chain 0 0x1c00ffff 100) + 1) smod 144 \<noteq> 0"
    by (simp add: signed_modulo_int_def)
  have n': "\<not> fPowAllowMinDifficultyBlocks noretarget_consensus"
    by (simp add: noretarget_consensus_def main_consensus_def)
  have boundary:
    "CalculateNextWorkRequired (flat_chain 0 0x1c00ffff 143) 0 noretarget_consensus = Inr 0x1c00ffff \<and>
     GetNextWorkRequired (flat_chain 0 0x1c00ffff 143) null_header noretarget_consensus = Inr 0x1c00ffff"
    using i m a
      NoRetargeting_returns_bits [OF h, of "flat_chain 0 0x1c00ffff 143" 0 144 null_header]
    by simp
  have between:
    "GetNextWorkRequired (flat_chain 0 0x1c00ffff 100) null_header noretarget_consensus = Inr 0x1c00ffff"
    using i' m' n'
      NoRetargeting_returns_bits [OF h, of "flat_chain 0 0x1c00ffff 100" 0 144 null_header]
    by simp
  show ?thesis using h i m a i' m' n' boundary between by simp
qed

text \<open>
  Claim C7 as stated fails: with \<^verbatim>\<open>fPowNoRetargeting\<close> set and a predecessor of height 28950
  whose compact target is \<open>0x1c00ffff\<close>, \<^verbatim>\<open>GetNextWorkRequired\<close> is in the reset window and
  returns the proof-of-work limit \<open>0x1d00ffff\<close>.
\<close>

theorem NoRetargeting_counterexample:
  "fPowNoRetargeting noretarget_consensus \<and>
   idx_nBits (flat_chain 0 0x1c00ffff 28950) = 0x1c00ffff \<and>
   GetNextWorkRequired (flat_chain 0 0x1c00ffff 28950) null_header noretarget_consensus = Inr 0x1d00ffff \<and>
   (0x1d00ffff :: 32 word) \<noteq> 0x1c00ffff"
  by (simp add: GetNextWorkRequired_def Let_def noretarget_consensus_def main_consensus_def
      GetCompact_main_powLimit)

section \<open>Claims about AuxPoW verification\<close>

lemma le_bytes_nat_zeros: "le_bytes_nat (replicate n 0) = 0"
  by (induction n) simp_all

lemma le_bytes_nat_ones: "Suc (le_bytes_nat (replicate n 0xff)) = 2 ^ (8 * n)"
proof (induction n)
  case 0
  show ?case by simp
next
  case (Suc n)
  have "Suc (le_bytes_nat (replicate (Suc n) 0xff)) = 256 * Suc (le_bytes_nat (replicate n 0xff))"
    by simp
  also have "\<dots> = 256 * 2 ^ (8 * n)" by (simp only: Suc.IH)
  also have "\<dots> = 2 ^ (8 * Suc n)" by (simp add: power_add)
  finally show ?case .
qed

lemma UintToArith256_null: "UintToArith256 uint256_null = 0"
  by (simp add: UintToArith256_def uint256_null_def le_bytes_nat_zeros)

lemma UintToArith256_ones:
  "UintToArith256 (replicate 32 0xff) =
     0xffffffffffffffffffffffffffffffffffffffffffffffffffffffffffffffff"
proof -
  have "le_bytes_nat (replicate 32 0xff) = 2 ^ 256 - 1"
    using le_bytes_nat_ones [of 32] by simp
  then show ?thesis by (simp add: UintToArith256_def)
qed

lemma UintToArith256_main_powLimit:
  "UintToArith256 main_powLimit =
     0xffffffffffffffffffffffffffffffffffffffffffffffffffffffff"
  by (simp add: UintToArith256_def main_powLimit_def)

lemma uint256_null_list:
  "length uint256_null = 32" "take 32 uint256_null = uint256_null"
  "rev uint256_null = uint256_null"
  by (simp_all add: uint256_null_def)

lemma search_Some:
  "search xs pat = Some i \<Longrightarrow> xs = take i xs @ pat @ drop (i + length pat) xs"
proof (induction xs arbitrary: i)
  case Nil
  then show ?case by (simp split: if_splits)
next
  case (Cons x xs)
  show ?case
  proof (cases "prefix pat (x # xs)")
    case True
    then have "i = 0" using Cons.prems by simp
    moreover from True obtain zs where "x # xs = pat @ zs" by (auto simp: prefix_def)
    ultimately show ?thesis by simp
  next
    case False
    then obtain j where j: "search xs pat = Some j" "i = Suc j"
      using Cons.prems by auto
    from Cons.IH [OF j(1)] show ?thesis using j(2) by simp
  qed
qed

lemma ex_block_passes:
  "CheckAuxPowProofOfWork zero_hash ex_auxpow_block main_consensus {} = (Inr (), {})"
  by (simp add: CheckAuxPowProofOfWork_def IsAuxpow_def AUXPOW_VERSION_BIT_def ex_auxpow_block_def
      ex_auxpow_def ex_coinbase_def GetParentBlockHash_def GetHash_def zero_hash_def
      CheckProofOfWork_def SetCompact_def UintToArith256_null UintToArith256_main_powLimit
      main_consensus_def CheckMerkleBranch_def null_header_def pchAuxPowHeader_def Let_def
      GetBlockHeader_def uint256_null_list)

text \<open>
  Claim C3. For every block whose AuxPoW flag is set and whose proof is present,
  \<^verbatim>\<open>CheckAuxPowProofOfWork\<close> succeeds only if the signature script of the first input of the
  parent coinbase contains the magic prefix \<open>70 6c 6d 01\<close> followed by at least 32 bytes,
  and those 32 bytes, reversed, are the hash of a copy of the block's header with the
  AuxPoW version bit cleared.
\<close>

theorem CheckAuxPow_success_commitment:
  assumes "IsAuxpow block" "m_auxpow block = Some ap"
      and "fst (CheckAuxPowProofOfWork H block params S) = Inr ()"
  shows "\<exists>txin rest pre post.
           vin (coinbaseTx ap) = txin # rest \<and>
           scriptSig txin = pre @ [0x70, 0x6c, 0x6d, 0x01] @ post \<and>
           32 \<le> length post \<and>
           rev (take 32 post) =
             GetHash H ((GetBlockHeader block)
               \<lparr> nVersion := nVersion (GetBlockHeader block) AND NOT AUXPOW_VERSION_BIT \<rparr>)"
proof -
  from assms obtain txin rest pc where
    v: "vin (coinbaseTx ap) = txin # rest" and
    s: "search (scriptSig txin) pchAuxPowHeader = Some pc" and
    l: "\<not> length (drop (pc + length pchAuxPowHeader) (scriptSig txin)) < 32" and
    c: "rev (take 32 (drop (pc + length pchAuxPowHeader) (scriptSig txin))) =
          GetHash H ((GetBlockHeader block)
               \<lparr> nVersion := nVersion (GetBlockHeader block) AND NOT AUXPOW_VERSION_BIT \<rparr>)"
    by (auto simp: CheckAuxPowProofOfWork_def Let_def
        split: if_splits option.splits list.splits)
  have "scriptSig txin = take pc (scriptSig txin) @ pchAuxPowHeader @
          drop (pc + length pchAuxPowHeader) (scriptSig txin)"
    by (rule search_Some [OF s])
  then have "scriptSig txin = take pc (scriptSig txin) @ [0x70, 0x6c, 0x6d, 0x01] @
          drop (pc + length pchAuxPowHeader) (scriptSig txin)"
    by (simp add: pchAuxPowHeader_def)
  with v l c show ?thesis by (metis not_less)
qed

theorem CheckAuxPow_success_commitment_witness:
  "IsAuxpow ex_auxpow_block \<and> m_auxpow ex_auxpow_block = Some ex_auxpow \<and>
   fst (CheckAuxPowProofOfWork zero_hash ex_auxpow_block main_consensus {}) = Inr () \<and>
   (\<exists>txin rest pre post.
           vin (coinbaseTx ex_auxpow) = txin # rest \<and>
           scriptSig txin = pre @ [0x70, 0x6c, 0x6d, 0x01] @ post \<and>
           32 \<le> length post \<and>
           rev (take 32 post) =
             GetHash zero_hash ((GetBlockHeader ex_auxpow_block)
               \<lparr> nVersion := nVersion (GetBlockHeader ex_auxpow_block) AND NOT AUXPOW_VERSION_BIT \<rparr>))"
proof -
  have a: "IsAuxpow ex_auxpow_block"
    by (simp add: IsAuxpow_def AUXPOW_VERSION_BIT_def ex_auxpow_block_def)
  have b: "m_auxpow ex_auxpow_block = Some ex_auxpow" by (simp add: ex_auxpow_block_def)
  have c: "fst (CheckAuxPowProofOfWork zero_hash ex_auxpow_block main_consensus {}) = Inr ()"
    by (simp add: ex_block_passes)
  show ?thesis using a b c CheckAuxPow_success_commitment [OF a b c] by blast
qed

text \<open>
  Claim C6, as amended. \<^verbatim>\<open>CheckAuxPowProofOfWork\<close> never changes the set of scanned parent
  hashes. Whenever the parent header's hash is in the set the verification fails; the
  failure is the duplicate-parent error when the five checks made before the set is
  consulted pass, that is, when the verification succeeds against the empty set.
\<close>

theorem CheckAuxPow_duplicate_parent:
  "snd (CheckAuxPowProofOfWork H block params S) = S \<and>
   (m_auxpow block = Some ap \<and> GetParentBlockHash H ap \<in> S \<longrightarrow>
      fst (CheckAuxPowProofOfWork H block params S) \<noteq> Inr ()) \<and>
   (m_auxpow block = Some ap \<and> GetParentBlockHash H ap \<in> S \<and>
      fst (CheckAuxPowProofOfWork H block params {}) = Inr () \<longrightarrow>
      fst (CheckAuxPowProofOfWork H block params S) = Inl AuxDuplicateParent)"
  by (auto simp: CheckAuxPowProofOfWork_def Let_def
      split: if_splits option.splits list.splits)

theorem CheckAuxPow_duplicate_parent_witness:
  "m_auxpow ex_auxpow_block = Some ex_auxpow \<and>
   GetParentBlockHash zero_hash ex_auxpow \<in> {uint256_null} \<and>
   fst (CheckAuxPowProofOfWork zero_hash ex_auxpow_block main_consensus {}) = Inr () \<and>
   CheckAuxPowProofOfWork zero_hash ex_auxpow_block main_consensus {uint256_null} =
     (Inl AuxDuplicateParent, {uint256_null})"
proof -
  have b: "m_auxpow ex_auxpow_block = Some ex_auxpow" by (simp add: ex_auxpow_block_def)
  have p: "GetParentBlockHash zero_hash ex_auxpow \<in> {uint256_null}"
    by (simp add: GetParentBlockHash_def GetHash_def zero_hash_def)
  have c: "fst (CheckAuxPowProofOfWork zero_hash ex_auxpow_block main_consensus {}) = Inr ()"
    by (simp add: ex_block_passes)
  show ?thesis
    using b p c
      CheckAuxPow_duplicate_parent [of zero_hash ex_auxpow_block main_consensus "{uint256_null}" ex_auxpow]
    by (simp add: prod_eq_iff)
qed

text \<open>
  Claim C6 as stated fails: a block whose parent hash is in the set but does not meet the
  target fails at the proof-of-work check, which is made first, and not with the
  duplicate-parent error.
\<close>

theorem CheckAuxPow_duplicate_parent_counterexample:
  "IsAuxpow ex_auxpow_block \<and> m_auxpow ex_auxpow_block = Some ex_auxpow \<and>
   GetParentBlockHash ones_hash ex_auxpow \<in> {replicate 32 0xff} \<and>
   fst (CheckAuxPowProofOfWork ones_hash ex_auxpow_block main_consensus {replicate 32 0xff})
     = Inl BadPoW \<and>
   BadPoW \<noteq> AuxDuplicateParent"
  by (simp add: CheckAuxPowProofOfWork_def IsAuxpow_def AUXPOW_VERSION_BIT_def ex_auxpow_block_def
      ex_auxpow_def GetParentBlockHash_def GetHash_def ones_hash_def
      CheckProofOfWork_def SetCompact_def UintToArith256_ones UintToArith256_main_powLimit
      main_consensus_def Let_def)

section \<open>Claims about block submission\<close>

lemma ex_flags:
  "IsAuxpow ex_auxpow_block" "\<not> IsAuxpow ex_plain_block"
  "IsAuxpow (ex_auxpow_block \<lparr> m_auxpow := None \<rparr>)"
  by (simp_all add: IsAuxpow_def AUXPOW_VERSION_BIT_def ex_auxpow_block_def ex_plain_block_def)

lemma ex_proof_present: "m_auxpow ex_auxpow_block \<noteq> None"
  by (simp add: ex_auxpow_block_def)

lemma ex_prev:
  "hashPrevBlock ex_auxpow_block = uint256_null" "hashPrevBlock ex_plain_block = uint256_null"
  by (simp_all add: ex_auxpow_block_def ex_plain_block_def)

lemma ex_process:
  "submitblock_process (ex_node auxpow_consensus ex_auxpow_block) ex_auxpow_block = Inr NullUniValue"
  by (simp add: submitblock_process_def ex_node_def Let_def GetHash_def ones_hash_def
      uint256_null_def BIP22ValidationResult_def valid_state_def ex_auxpow_block_def)

lemma ex_node_sel:
  "DecodeHexBlk (ex_node params block) ''00'' = Some block"
  "LookupBlockIndex (ex_node params block) uint256_null = Some (flat_chain 0 0x1d00ffff 100)"
  "consensus (ex_node params block) = params"
  by (simp_all add: ex_node_def)

lemma ex_start_heights:
  "nAuxpowStartHeight main_consensus = 2147483647" "nAuxpowStartHeight auxpow_consensus = 50"
  by (simp_all add: main_consensus_def auxpow_consensus_def MAX_BLOCK_HEIGHT_def)

text \<open>
  Claim C5. For every submitted block whose would-be height \<open>H\<close> is known from the index
  entry of its previous block: if \<open>H\<close> is below \<^verbatim>\<open>nAuxpowStartHeight\<close> and the AuxPoW flag
  is set, \<^verbatim>\<open>submitblock\<close> replies \<open>rejected: bad-auxpow-unexpected\<close>; if \<open>H\<close> is at or above
  it and the flag is not set, \<open>rejected: bad-auxpow-version-missing\<close>; if \<open>H\<close> is at or
  above it, the flag is set and the proof is absent, \<open>rejected: bad-auxpow-data-missing\<close>;
  in the remaining cases the checks pass and the submission goes on with the rest of the
  function.
\<close>

theorem submitblock_auxpow_gate:
  assumes "DecodeHexBlk nd hexdata = Some block"
      and "LookupBlockIndex nd (hashPrevBlock block) = Some pindexPrev"
  shows "submitblock nd hexdata =
     (if nHeight pindexPrev + 1 < nAuxpowStartHeight (consensus nd) \<and> IsAuxpow block
      then Inr (VSTR ''rejected: bad-auxpow-unexpected'')
      else if nAuxpowStartHeight (consensus nd) \<le> nHeight pindexPrev + 1 \<and> \<not> IsAuxpow block
      then Inr (VSTR ''rejected: bad-auxpow-version-missing'')
      else if nAuxpowStartHeight (consensus nd) \<le> nHeight pindexPrev + 1 \<and> IsAuxpow block
              \<and> m_auxpow block = None
      then Inr (VSTR ''rejected: bad-auxpow-data-missing'')
      else submitblock_process nd block)"
  using assms by (auto simp: submitblock_def Let_def)

theorem submitblock_auxpow_gate_witness:
  "submitblock (ex_node main_consensus ex_auxpow_block) ''00'' =
     Inr (VSTR ''rejected: bad-auxpow-unexpected'') \<and>
   submitblock (ex_node auxpow_consensus ex_plain_block) ''00'' =
     Inr (VSTR ''rejected: bad-auxpow-version-missing'') \<and>
   submitblock (ex_node auxpow_consensus (ex_auxpow_block \<lparr> m_auxpow := None \<rparr>)) ''00'' =
     Inr (VSTR ''rejected: bad-auxpow-data-missing'') \<and>
   submitblock (ex_node auxpow_consensus ex_auxpow_block) ''00'' = Inr NullUniValue"
proof -
  have p: "hashPrevBlock (ex_auxpow_block \<lparr> m_auxpow := None \<rparr>) = uint256_null"
    by (simp add: ex_prev)
  have a: "submitblock (ex_node main_consensus ex_auxpow_block) ''00'' =
     Inr (VSTR ''rejected: bad-auxpow-unexpected'')"
    using submitblock_auxpow_gate [of "ex_node main_consensus ex_auxpow_block" "''00''"
        ex_auxpow_block "flat_chain 0 0x1d00ffff 100"]
    by (simp add: ex_node_sel ex_flags ex_prev ex_start_heights)
  have b: "submitblock (ex_node auxpow_consensus ex_plain_block) ''00'' =
     Inr (VSTR ''rejected: bad-auxpow-version-missing'')"
    using submitblock_auxpow_gate [of "ex_node auxpow_consensus ex_plain_block" "''00''"
        ex_plain_block "flat_chain 0 0x1d00ffff 100"]
    by (simp add: ex_node_sel ex_flags ex_prev ex_start_heights)
  have c: "submitblock (ex_node auxpow_consensus (ex_auxpow_block \<lparr> m_auxpow := None \<rparr>)) ''00'' =
     Inr (VSTR ''rejected: bad-auxpow-data-missing'')"
    using submitblock_auxpow_gate [of "ex_node auxpow_consensus (ex_auxpow_block \<lparr> m_auxpow := None \<rparr>)" "''00''"
        "ex_auxpow_block \<lparr> m_auxpow := None \<rparr>" "flat_chain 0 0x1d00ffff 100"]
    by (simp add: ex_node_sel ex_flags p ex_start_heights)
  have d: "submitblock (ex_node auxpow_consensus ex_auxpow_block) ''00'' = Inr NullUniValue"
    using submitblock_auxpow_gate [of "ex_node auxpow_consensus ex_auxpow_block" "''00''"
        ex_auxpow_block "flat_chain 0 0x1d00ffff 100"]
    by (simp add: ex_node_sel ex_flags ex_prev ex_proof_present ex_start_heights ex_process)
  show ?thesis using a b c d by simp
qed





section \<open>Claims about block deserialization\<close>















lemma IsAuxpow_extend [simp]: "IsAuxpow (CBlockHeader.extend hdr x) = IsAuxpow hdr"
  by (simp add: IsAuxpow_def CBlockHeader.defs)













end
